theory Spec2Isabelle
  imports Complex_Main
begin

section \<open>The four truth values and the operator tables\<close>

text \<open>
  The program under study is the Python text held in \<open>pythonCode\<close> of \<open>src/App.tsx\<close>.
  Its truth values are the four string constants \<open>T\<close>, \<open>F\<close>, \<open>B\<close>, \<open>N\<close>
  ("True", "False", "Both", "Neither"); they are the only keys and the only
  entries of its tables, so they are modelled as an enumeration.
\<close>

datatype tv = T | F | B | N

text \<open>
  \<open>NEGATION_TABLE\<close> is a dictionary with one entry for each of the four values,
  so a lookup never misses and the table is a total function.
\<close>

fun NEGATION_TABLE :: "tv \<Rightarrow> tv" where
  "NEGATION_TABLE T = F"
| "NEGATION_TABLE F = T"
| "NEGATION_TABLE B = B"
| "NEGATION_TABLE N = N"

text \<open>\<open>CONJUNCTION_TABLE\<close> is keyed by pairs; all sixteen pairs are present.\<close>

fun CONJUNCTION_TABLE :: "tv \<times> tv \<Rightarrow> tv" where
  "CONJUNCTION_TABLE (T, T) = T"
| "CONJUNCTION_TABLE (T, F) = F"
| "CONJUNCTION_TABLE (T, B) = B"
| "CONJUNCTION_TABLE (T, N) = N"
| "CONJUNCTION_TABLE (F, T) = F"
| "CONJUNCTION_TABLE (F, F) = F"
| "CONJUNCTION_TABLE (F, B) = F"
| "CONJUNCTION_TABLE (F, N) = F"
| "CONJUNCTION_TABLE (B, T) = B"
| "CONJUNCTION_TABLE (B, F) = F"
| "CONJUNCTION_TABLE (B, B) = B"
| "CONJUNCTION_TABLE (B, N) = F"
| "CONJUNCTION_TABLE (N, T) = N"
| "CONJUNCTION_TABLE (N, F) = F"
| "CONJUNCTION_TABLE (N, B) = F"
| "CONJUNCTION_TABLE (N, N) = N"

definition join_info_lattice :: "tv \<Rightarrow> tv \<Rightarrow> tv" where
  "join_info_lattice v1 v2 =
     (if v1 = v2 then v1
      else if v1 = N then v2
      else if v2 = N then v1
      else B)"

text \<open>
  The information order of the specification: \<open>N\<close> is the least element,
  \<open>B\<close> the greatest, and \<open>T\<close> and \<open>F\<close> are related only to themselves,
  to \<open>N\<close> below and to \<open>B\<close> above.
\<close>

definition le_info :: "tv \<Rightarrow> tv \<Rightarrow> bool" where
  "le_info v1 v2 = (v1 = v2 \<or> v1 = N \<or> v2 = B)"

section \<open>The Liar solver\<close>

text \<open>
  A Python call either returns a value or raises. The errors are those the
  specification names; the source has no \<open>raise\<close> statement, and every path
  through it ends in \<open>return liar_value\<close>.
\<close>

datatype error = UndefinedReference | MalformedFormula | NonConvergence

text \<open>Lines 48 to 55: the value assigned to \<open>liar_value\<close> in one pass of the loop body.\<close>

definition liar_round :: "tv \<Rightarrow> tv" where
  "liar_round previous_value =
     (let computed_value = NEGATION_TABLE previous_value
      in join_info_lattice previous_value computed_value)"

text \<open>
  How a run of the loop ends: \<open>Stabilized i v\<close> is the \<open>return\<close> inside the
  loop (line 66) taken in the pass with index \<open>i\<close>; \<open>Exhausted v\<close> is the
  \<open>return\<close> after the loop (line 68), reached when \<open>range(max_iterations)\<close>
  is used up.
\<close>

datatype outcome = Stabilized nat tv | Exhausted tv

text \<open>
  The \<open>for i in range(max_iterations)\<close> loop, by recursion over the indices
  that remain; the second argument is the current \<open>liar_value\<close>.
\<close>

fun liar_for :: "nat list \<Rightarrow> tv \<Rightarrow> outcome" where
  "liar_for [] liar_value = Exhausted liar_value"
| "liar_for (i # rest) liar_value =
     (let previous_value = liar_value;
          liar_value' = liar_round previous_value
      in if liar_value' = previous_value then Stabilized i liar_value'
         else liar_for rest liar_value')"

text \<open>
  The body of \<open>solve_liar_fixed_point\<close> with its two local constants (the
  initial \<open>liar_value\<close> and \<open>max_iterations\<close>) as parameters. Both
  \<open>return\<close> statements hand back \<open>liar_value\<close> as an ordinary result.
\<close>

definition solve_liar :: "nat \<Rightarrow> tv \<Rightarrow> error + tv" where
  "solve_liar max_iterations start =
     (case liar_for [0..<max_iterations] start of
        Stabilized i liar_value \<Rightarrow> Inr liar_value
      | Exhausted liar_value \<Rightarrow> Inr liar_value)"

definition solve_liar_fixed_point :: "error + tv" where
  "solve_liar_fixed_point = solve_liar 5 N"

section \<open>The confidence projection\<close>

text \<open>
  The function \<open>C(v)\<close> of the component \<open>MathFormula\<close> (lines 116 to 121),
  which the page gives by cases; an interval \<open>[min, max]\<close> is the pair of its
  end points.
\<close>

fun C :: "tv \<Rightarrow> real \<times> real" where
  "C T = (1.0, 1.0)"
| "C F = (0.0, 0.0)"
| "C B = (0.0, 1.0)"
| "C N = (0.0, 0.0)"

section \<open>The solver for sentence graphs\<close>

text \<open>
  Modelled from the spec: the source holds the solver for the single sentence
  \<open>L = Negation(L)\<close> only; the sentence graph, the evaluation of formulas, the
  synchronous round and \<open>solve(graph, max_iterations)\<close> for any number of
  sentences are missing from it. They follow sections 3, 4.1, 4.3 and 4.4 of
  the specification and use the tables and the join of the source.
\<close>

type_synonym name = string

datatype formula =
    Literal tv
  | Reference name
  | Negation formula
  | Conjunction formula formula
  | Disjunction formula formula

text \<open>
  Modelled from the spec: a mapping from names to formulas (the graph) or to
  truth values (an assignment) is a list of pairs whose names are distinct.
\<close>

type_synonym graph = "(name \<times> formula) list"

type_synonym assignment = "(name \<times> tv) list"

text \<open>Modelled from the spec: disjunction, derived by De Morgan (section 4.1).\<close>

definition disjunction :: "tv \<Rightarrow> tv \<Rightarrow> tv" where
  "disjunction v1 v2 =
     NEGATION_TABLE (CONJUNCTION_TABLE (NEGATION_TABLE v1, NEGATION_TABLE v2))"

text \<open>
  Modelled from the spec: the value of a name in a snapshot. A graph that was
  constructed has no reference to a name outside it; for such a name the
  lookup gives the initial value.
\<close>

definition lookup_value :: "assignment \<Rightarrow> name \<Rightarrow> tv" where
  "lookup_value a n = (case map_of a n of Some v \<Rightarrow> v | None \<Rightarrow> N)"

text \<open>
  Modelled from the spec: \<open>evaluate(formula, previous_round_assignment)\<close>; a
  reference reads the frozen snapshot.
\<close>

fun evaluate :: "formula \<Rightarrow> assignment \<Rightarrow> tv" where
  "evaluate (Literal v) a = v"
| "evaluate (Reference n) a = lookup_value a n"
| "evaluate (Negation f) a = NEGATION_TABLE (evaluate f a)"
| "evaluate (Conjunction f1 f2) a = CONJUNCTION_TABLE (evaluate f1 a, evaluate f2 a)"
| "evaluate (Disjunction f1 f2) a = disjunction (evaluate f1 a) (evaluate f2 a)"

fun references :: "formula \<Rightarrow> name list" where
  "references (Literal v) = []"
| "references (Reference n) = [n]"
| "references (Negation f) = references f"
| "references (Conjunction f1 f2) = references f1 @ references f2"
| "references (Disjunction f1 f2) = references f1 @ references f2"

text \<open>
  Modelled from the spec: construction (section 4.3) checks that every
  reference names a sentence of the same definition set, and fails with
  \<open>UndefinedReference\<close> otherwise; cycles are accepted.
\<close>

definition build_graph :: "(name \<times> formula) list \<Rightarrow> error + graph" where
  "build_graph defs =
     (if list_all (\<lambda>(n, f). list_all (\<lambda>r. r \<in> set (map fst defs)) (references f)) defs
      then Inr defs else Inl UndefinedReference)"

text \<open>Modelled from the spec: the Initializing state, every sentence at Neither.\<close>

definition initial :: "graph \<Rightarrow> assignment" where
  "initial g = map (\<lambda>(n, f). (n, N)) g"

text \<open>
  Modelled from the spec: one round (section 4.4). Every sentence gets
  \<open>join(previous_value, candidate)\<close>, the candidate being computed from the
  snapshot \<open>a\<close> of the round before.
\<close>

definition round_step :: "graph \<Rightarrow> assignment \<Rightarrow> assignment" where
  "round_step g a =
     map (\<lambda>(n, f). (n, join_info_lattice (lookup_value a n) (evaluate f a))) g"

text \<open>
  Modelled from the spec: the Iterating state with \<open>max_iterations\<close> rounds
  left. A round without change ends in Stable with the assignment; no round
  left ends in \<open>NonConvergence\<close>.
\<close>

fun solve_from :: "graph \<Rightarrow> nat \<Rightarrow> assignment \<Rightarrow> error + assignment" where
  "solve_from g 0 a = Inl NonConvergence"
| "solve_from g (Suc max_iterations) a =
     (let a' = round_step g a
      in if a' = a then Inr a' else solve_from g max_iterations a')"

text \<open>
  Modelled from the spec: \<open>solve(graph, max_iterations)\<close>; the empty graph
  gives the empty assignment without a round.
\<close>

definition solve :: "graph \<Rightarrow> nat \<Rightarrow> error + assignment" where
  "solve g max_iterations =
     (if g = [] then Inr [] else solve_from g max_iterations (initial g))"

text \<open>
  The height of a value in the information order (Neither, then True or
  False, then Both), and the sum of the heights of an assignment.
\<close>

fun height :: "tv \<Rightarrow> nat" where
  "height N = 0"
| "height T = 1"
| "height F = 1"
| "height B = 2"

definition total_height :: "assignment \<Rightarrow> nat" where
  "total_height a = sum_list (map (\<lambda>(n, v). height v) a)"

section \<open>Basic facts\<close>

lemma le_info_iff_join: "le_info v1 v2 \<longleftrightarrow> join_info_lattice v1 v2 = v2"
  by (cases v1; cases v2; simp add: le_info_def join_info_lattice_def)

lemma le_info_refl: "le_info v v"
  by (simp add: le_info_def)

lemma le_info_trans: "le_info a b \<Longrightarrow> le_info b c \<Longrightarrow> le_info a c"
  by (cases a; cases b; cases c; simp add: le_info_def)

lemma le_info_antisym: "le_info a b \<Longrightarrow> le_info b a \<Longrightarrow> a = b"
  by (cases a; cases b; simp add: le_info_def)

lemma liar_round_simps:
  "liar_round T = B" "liar_round F = B" "liar_round B = B" "liar_round N = N"
  by (simp_all add: liar_round_def join_info_lattice_def)

lemma liar_for_5_N: "liar_for [0..<5] N = Stabilized 0 N"
  by (simp add: upt_conv_Cons liar_round_simps)

lemma le_info_join_left: "le_info v (join_info_lattice v c)"
  by (cases v; cases c; simp add: le_info_def join_info_lattice_def)

lemma le_info_liar_round: "le_info v (liar_round v)"
  by (simp add: liar_round_def le_info_join_left)

lemma liar_round_chain: "le_info ((liar_round ^^ k) start) ((liar_round ^^ (k + d)) start)"
proof (induction d)
  case 0
  show ?case by (simp add: le_info_refl)
next
  case (Suc d)
  have "le_info ((liar_round ^^ (k + d)) start) ((liar_round ^^ (k + Suc d)) start)"
    by (simp add: le_info_liar_round)
  with Suc show ?case by (rule le_info_trans)
qed



section \<open>Heights and rounds\<close>

text \<open>
  A round never lowers the height of a value, and it leaves the sum of the
  heights unchanged only when it changes nothing. The sum is at most twice
  the number of sentences, which bounds the number of rounds with a change.
\<close>

lemma height_join_ge: "height v \<le> height (join_info_lattice v c)"
  by (cases v; cases c; simp add: join_info_lattice_def)

lemma height_join_eq: "height (join_info_lattice v c) = height v \<Longrightarrow> join_info_lattice v c = v"
  by (cases v; cases c; simp add: join_info_lattice_def)

lemma total_height_bound: "total_height a \<le> 2 * length a"
proof (induction a)
  case Nil
  show ?case by (simp add: total_height_def)
next
  case (Cons x a)
  obtain n v where x: "x = (n, v)" by (cases x)
  have "height v \<le> 2" by (cases v) simp_all
  with Cons show ?case by (simp add: total_height_def x)
qed

lemma keys_round_step: "map fst (round_step g a) = map fst g"
  by (induction g) (auto simp: round_step_def)

lemma keys_initial: "map fst (initial g) = map fst g"
  by (induction g) (auto simp: initial_def)

lemma lookup_value_member:
  "distinct (map fst a) \<Longrightarrow> (n, v) \<in> set a \<Longrightarrow> lookup_value a n = v"
  by (simp add: lookup_value_def)

lemma assignment_by_names:
  assumes "distinct (map fst a)"
  shows "map (\<lambda>n. (n, lookup_value a n)) (map fst a) = a"
proof -
  have "map (\<lambda>x. (fst x, lookup_value a (fst x))) a = map (\<lambda>x. x) a"
  proof (rule map_cong [OF refl])
    fix x assume "x \<in> set a"
    then have "(fst x, snd x) \<in> set a" by simp
    from lookup_value_member [OF assms this] show "(fst x, lookup_value a (fst x)) = x"
      by (simp add: prod_eq_iff)
  qed
  then show ?thesis by (simp add: comp_def)
qed

lemma sum_list_pointwise_eq:
  fixes p q :: "'a \<Rightarrow> nat"
  assumes "\<And>x. x \<in> set xs \<Longrightarrow> p x \<le> q x"
    and "sum_list (map p xs) = sum_list (map q xs)"
    and "x \<in> set xs"
  shows "p x = q x"
  using assms
proof (induction xs)
  case Nil
  then show ?case by simp
next
  case (Cons y ys)
  have le: "sum_list (map p ys) \<le> sum_list (map q ys)"
    by (rule sum_list_mono) (simp add: Cons.prems(1))
  have py: "p y \<le> q y" by (simp add: Cons.prems(1))
  from Cons.prems(2) have "p y + sum_list (map p ys) = q y + sum_list (map q ys)" by simp
  with le py have eqs: "p y = q y" "sum_list (map p ys) = sum_list (map q ys)" by arith+
  show ?case
  proof (cases "x = y")
    case True
    with eqs show ?thesis by simp
  next
    case False
    with Cons.prems(3) have "x \<in> set ys" by simp
    with Cons.IH eqs(2) Cons.prems(1) show ?thesis by simp
  qed
qed


lemma total_height_round_step:
  "total_height (round_step g a) =
     sum_list (map (\<lambda>x. height (join_info_lattice (lookup_value a (fst x)) (evaluate (snd x) a))) g)"
  by (induction g) (simp_all add: total_height_def round_step_def split: prod.splits)

lemma total_height_by_graph:
  assumes "distinct (map fst a)" and "map fst a = map fst g"
  shows "total_height a = sum_list (map (\<lambda>x. height (lookup_value a (fst x))) g)"
proof -
  have "total_height (map (\<lambda>n. (n, lookup_value a n)) (map fst g))
          = sum_list (map (\<lambda>x. height (lookup_value a (fst x))) g)"
    by (induction g) (simp_all add: total_height_def)
  with assignment_by_names [OF assms(1)] assms(2) show ?thesis by simp
qed

lemma total_height_mono:
  assumes "distinct (map fst a)" and "map fst a = map fst g"
  shows "total_height a \<le> total_height (round_step g a)"
  unfolding total_height_round_step total_height_by_graph [OF assms]
  by (rule sum_list_mono) (rule height_join_ge)

lemma total_height_eq_stable:
  assumes "distinct (map fst a)" and "map fst a = map fst g"
    and "total_height (round_step g a) = total_height a"
  shows "round_step g a = a"
proof -
  let ?p = "\<lambda>x. height (lookup_value a (fst x))"
  let ?q = "\<lambda>x. height (join_info_lattice (lookup_value a (fst x)) (evaluate (snd x) a))"
  have sums: "sum_list (map ?p g) = sum_list (map ?q g)"
    by (simp only: total_height_round_step [symmetric]
        total_height_by_graph [OF assms(1,2), symmetric] assms(3))
  have pt: "join_info_lattice (lookup_value a (fst x)) (evaluate (snd x) a) = lookup_value a (fst x)"
    if "x \<in> set g" for x
  proof -
    have "?p x = ?q x"
      by (rule sum_list_pointwise_eq [where p = ?p and q = ?q and xs = g,
            OF height_join_ge sums that])
    from height_join_eq [OF this [symmetric]] show ?thesis .
  qed
  have "round_step g a = map (\<lambda>x. (fst x, lookup_value a (fst x))) g"
    unfolding round_step_def
    by (rule map_cong [OF refl]) (simp add: pt case_prod_unfold)
  also have "\<dots> = map (\<lambda>n. (n, lookup_value a n)) (map fst g)"
    by (induction g) simp_all
  also have "\<dots> = map (\<lambda>n. (n, lookup_value a n)) (map fst a)"
    by (simp only: assms(2))
  also have "\<dots> = a"
    by (rule assignment_by_names [OF assms(1)])
  finally show ?thesis .
qed

lemma total_height_strict:
  assumes "distinct (map fst a)" and "map fst a = map fst g"
    and "round_step g a \<noteq> a"
  shows "total_height a < total_height (round_step g a)"
  using total_height_mono [OF assms(1,2)] total_height_eq_stable [OF assms(1,2)] assms(3)
  by (cases "total_height (round_step g a) = total_height a") auto

lemma keys_rounds: "map fst ((round_step g ^^ k) (initial g)) = map fst g"
  by (cases k) (simp_all add: keys_initial keys_round_step)

lemma rounds_raise_height:
  assumes "distinct (map fst g)"
    and "\<And>j. j < k \<Longrightarrow>
           round_step g ((round_step g ^^ j) (initial g)) \<noteq> (round_step g ^^ j) (initial g)"
  shows "k \<le> total_height ((round_step g ^^ k) (initial g))"
  using assms(2)
proof (induction k)
  case 0
  show ?case by simp
next
  case (Suc k)
  let ?a = "(round_step g ^^ k) (initial g)"
  have keys: "map fst ?a = map fst g" by (rule keys_rounds)
  with assms(1) have dist: "distinct (map fst ?a)" by simp
  have "k \<le> total_height ?a" by (rule Suc.IH) (simp add: Suc.prems)
  moreover have "total_height ?a < total_height (round_step g ?a)"
    by (rule total_height_strict [OF dist keys]) (simp add: Suc.prems)
  ultimately show ?case by simp
qed

lemma stable_round_exists:
  assumes "distinct (map fst g)"
  shows "\<exists>k<2 * length g + 1.
           round_step g ((round_step g ^^ k) (initial g)) = (round_step g ^^ k) (initial g)"
proof (rule ccontr)
  assume "\<not> ?thesis"
  then have "2 * length g + 1 \<le> total_height ((round_step g ^^ (2 * length g + 1)) (initial g))"
    by (intro rounds_raise_height [OF assms]) blast
  moreover have "total_height ((round_step g ^^ (2 * length g + 1)) (initial g))
                   \<le> 2 * length ((round_step g ^^ (2 * length g + 1)) (initial g))"
    by (rule total_height_bound)
  moreover have "length ((round_step g ^^ (2 * length g + 1)) (initial g)) = length g"
    using arg_cong [OF keys_rounds [where g = g and k = "2 * length g + 1"], of length]
    by simp
  ultimately show False by simp
qed

lemma solve_from_stable:
  assumes "round_step g ((round_step g ^^ k) a) = (round_step g ^^ k) a" and "k < m"
  shows "\<exists>a'. solve_from g m a = Inr a' \<and> round_step g a' = a'"
  using assms
proof (induction m arbitrary: a k)
  case 0
  then show ?case by simp
next
  case (Suc m)
  show ?case
  proof (cases "round_step g a = a")
    case True
    then show ?thesis by simp
  next
    case False
    with Suc.prems(1) obtain k' where k: "k = Suc k'" by (cases k) auto
    from Suc.prems k have "round_step g ((round_step g ^^ k') (round_step g a))
                             = (round_step g ^^ k') (round_step g a)"
      by (simp add: funpow_swap1)
    moreover from Suc.prems k have "k' < m" by simp
    ultimately have "\<exists>a'. solve_from g m (round_step g a) = Inr a' \<and> round_step g a' = a'"
      by (rule Suc.IH)
    with False show ?thesis by (simp add: Let_def)
  qed
qed

lemma build_graph_Inr: "build_graph defs = Inr g \<Longrightarrow> g = defs"
  by (simp add: build_graph_def split: if_splits)



section \<open>The Liar sentence\<close>

text \<open>
  C1. The specification and the comments of the source expect the run on the
  Liar sentence to end with the value Both within three rounds. The run does
  end, in its first pass (index 0), but with Neither: the table sends
  \<open>N\<close> to \<open>N\<close>, the join of \<open>N\<close> with \<open>N\<close> is \<open>N\<close>, and the
  test \<open>liar_value == previous_value\<close> succeeds at once. The value returned
  is not Both.
\<close>

theorem C1_liar_returns_Neither:
  "solve_liar_fixed_point = Inr N \<and> solve_liar_fixed_point \<noteq> Inr B
   \<and> liar_for [0..<5] N = Stabilized 0 N"
  by (simp add: solve_liar_fixed_point_def solve_liar_def liar_for_5_N)

text \<open>
  C10. \<open>solve_liar_fixed_point\<close> takes no argument and reads no state, so it
  denotes one value; that value \<open>v\<close> is a fixed point of the update of the
  loop: \<open>join_info_lattice(v, NEGATION_TABLE[v]) = v\<close>.
\<close>

theorem C10_result_is_fixed_point:
  "\<exists>v. solve_liar_fixed_point = Inr v \<and> join_info_lattice v (NEGATION_TABLE v) = v"
  by (simp add: solve_liar_fixed_point_def solve_liar_def liar_for_5_N join_info_lattice_def)

section \<open>The operators\<close>

text \<open>
  C2. Negation and conjunction agree with the tables of the specification:
  negation swaps True and False and fixes Both and Neither, and conjunction
  takes the stated value on each of the sixteen ordered pairs.
\<close>

theorem C2_tables:
  "NEGATION_TABLE T = F \<and> NEGATION_TABLE F = T \<and> NEGATION_TABLE B = B \<and> NEGATION_TABLE N = N
   \<and> CONJUNCTION_TABLE (T, T) = T \<and> CONJUNCTION_TABLE (T, F) = F
   \<and> CONJUNCTION_TABLE (T, B) = B \<and> CONJUNCTION_TABLE (T, N) = N
   \<and> (\<forall>x. CONJUNCTION_TABLE (F, x) = F)
   \<and> CONJUNCTION_TABLE (B, T) = B \<and> CONJUNCTION_TABLE (B, F) = F
   \<and> CONJUNCTION_TABLE (B, B) = B \<and> CONJUNCTION_TABLE (B, N) = F
   \<and> CONJUNCTION_TABLE (N, T) = N \<and> CONJUNCTION_TABLE (N, F) = F
   \<and> CONJUNCTION_TABLE (N, B) = F \<and> CONJUNCTION_TABLE (N, N) = N"
proof -
  have "CONJUNCTION_TABLE (F, x) = F" for x
    by (cases x) simp_all
  then show ?thesis by simp
qed

text \<open>
  C3. Negation and conjunction are monotone in the information order: when
  \<open>v1\<close> is below \<open>v2\<close>, the negation of \<open>v1\<close> is below the negation of
  \<open>v2\<close>, and for every \<open>x\<close> the conjunction of \<open>v1\<close> with \<open>x\<close> is below
  the conjunction of \<open>v2\<close> with \<open>x\<close>.
\<close>

theorem C3_monotone:
  "le_info v1 v2 \<Longrightarrow>
     le_info (NEGATION_TABLE v1) (NEGATION_TABLE v2)
     \<and> le_info (CONJUNCTION_TABLE (v1, x)) (CONJUNCTION_TABLE (v2, x))"
  by (cases v1; cases v2; cases x; simp add: le_info_def)

theorem C3_monotone_witness:
  "le_info N T \<and> le_info (NEGATION_TABLE N) (NEGATION_TABLE T)
   \<and> le_info (CONJUNCTION_TABLE (N, B)) (CONJUNCTION_TABLE (T, B))"
proof -
  have h: "le_info N T" by (simp add: le_info_def)
  show ?thesis using h C3_monotone [OF h, of B] by simp
qed

text \<open>
  C9. Conjunction is commutative: the table gives the same value for a pair
  and for the pair reversed.
\<close>

theorem C9_conjunction_commutes:
  "CONJUNCTION_TABLE (v1, v2) = CONJUNCTION_TABLE (v2, v1)"
  by (cases v1; cases v2; simp)

section \<open>The join\<close>

text \<open>
  C4. The join is commutative and idempotent, Neither is its identity, Both
  absorbs every value, and it is associative.
\<close>

theorem C4_join_laws:
  "join_info_lattice v1 v2 = join_info_lattice v2 v1
   \<and> join_info_lattice v v = v
   \<and> join_info_lattice N v = v
   \<and> join_info_lattice B v = B
   \<and> join_info_lattice (join_info_lattice v1 v2) v3
       = join_info_lattice v1 (join_info_lattice v2 v3)"
proof -
  have assoc: "join_info_lattice (join_info_lattice v1 v2) v3
       = join_info_lattice v1 (join_info_lattice v2 v3)"
    by (cases v1; cases v2; cases v3; simp add: join_info_lattice_def)
  have comm: "join_info_lattice v1 v2 = join_info_lattice v2 v1"
    by (cases v1; cases v2; simp add: join_info_lattice_def)
  have rest: "join_info_lattice v v = v \<and> join_info_lattice N v = v \<and> join_info_lattice B v = B"
    by (cases v; simp add: join_info_lattice_def)
  from assoc comm rest show ?thesis by simp
qed

text \<open>
  C8. A value only rises in the information order: the value the loop body
  assigns, the join of the previous value with the computed one, is above the
  previous value, and so the values after \<open>k\<close> and after \<open>k + d\<close> passes
  of the Liar update, from any start, are in increasing order.
\<close>

theorem C8_values_only_rise:
  "le_info previous_value (join_info_lattice previous_value computed_value)
   \<and> le_info ((liar_round ^^ k) start) ((liar_round ^^ (k + d)) start)"
  by (simp add: le_info_join_left liar_round_chain)

section \<open>The projection\<close>

text \<open>
  C5. The projection sends True to \<open>[1, 1]\<close>, False to \<open>[0, 0]\<close>, Both to
  \<open>[0, 1]\<close> and Neither to \<open>[0, 0]\<close>; Neither and False have the same
  interval. Every value gets a closed interval inside \<open>[0, 1]\<close>.
\<close>

theorem C5_projection:
  "C T = (1, 1) \<and> C F = (0, 0) \<and> C B = (0, 1) \<and> C N = (0, 0) \<and> C N = C F
   \<and> 0 \<le> fst (C v) \<and> fst (C v) \<le> snd (C v) \<and> snd (C v) \<le> 1"
  by (cases v) simp_all

section \<open>The bound on the number of rounds\<close>

text \<open>
  C6. For a graph of \<open>N\<close> sentences, constructed from definitions with
  distinct names, the rounds that start from the assignment with Neither
  everywhere reach a round without change among the first \<open>2N + 1\<close>
  rounds, and so the solver with a bound of at least \<open>2N + 1\<close> rounds ends
  in Stable with an assignment that a further round leaves unchanged. The Liar
  loop of the source leaves through its stabilisation test within the first 3
  of its 5 passes.
\<close>

theorem C6_stabilizes_within_bound:
  assumes "distinct (map fst defs)"
    and "build_graph defs = Inr g"
    and "2 * length g + 1 \<le> max_iterations"
  shows "(\<exists>k<2 * length g + 1.
            round_step g ((round_step g ^^ k) (initial g)) = (round_step g ^^ k) (initial g))
         \<and> (\<exists>a. solve g max_iterations = Inr a \<and> round_step g a = a)
         \<and> (\<exists>i<3. \<exists>v. liar_for [0..<5] N = Stabilized i v)"
proof -
  from build_graph_Inr [OF assms(2)] assms(1) have dist: "distinct (map fst g)"
    by simp
  from stable_round_exists [OF dist] obtain k where k: "k < 2 * length g + 1"
    "round_step g ((round_step g ^^ k) (initial g)) = (round_step g ^^ k) (initial g)"
    by blast
  from k(1) assms(3) have "k < max_iterations" by simp
  from solve_from_stable [OF k(2) this]
  have "\<exists>a. solve g max_iterations = Inr a \<and> round_step g a = a"
    by (cases "g = []") (simp_all add: solve_def round_step_def)
  with k show ?thesis by (auto simp: liar_for_5_N)
qed

theorem C6_stabilizes_within_bound_witness:
  "distinct (map fst [(''L'', Negation (Reference ''L''))])
   \<and> build_graph [(''L'', Negation (Reference ''L''))] = Inr [(''L'', Negation (Reference ''L''))]
   \<and> 2 * length [(''L'', Negation (Reference ''L''))] + 1 \<le> (3::nat)
   \<and> (\<exists>k<2 * length [(''L'', Negation (Reference ''L''))] + 1.
          round_step [(''L'', Negation (Reference ''L''))]
            ((round_step [(''L'', Negation (Reference ''L''))] ^^ k)
               (initial [(''L'', Negation (Reference ''L''))]))
          = (round_step [(''L'', Negation (Reference ''L''))] ^^ k)
              (initial [(''L'', Negation (Reference ''L''))]))
   \<and> (\<exists>a. solve [(''L'', Negation (Reference ''L''))] 3 = Inr a
          \<and> round_step [(''L'', Negation (Reference ''L''))] a = a)
   \<and> solve [(''L'', Negation (Reference ''L''))] 3 = Inr [(''L'', N)]"
proof -
  let ?g = "[(''L'', Negation (Reference ''L''))]"
  have h1: "distinct (map fst ?g)" by simp
  have h2: "build_graph ?g = Inr ?g" by (simp add: build_graph_def)
  have h3: "2 * length ?g + 1 \<le> (3::nat)" by simp
  have run: "solve ?g 3 = Inr [(''L'', N)]"
    by (simp add: solve_def initial_def round_step_def lookup_value_def
        join_info_lattice_def numeral_3_eq_3)
  note c = C6_stabilizes_within_bound [OF h1 h2 h3]
  note c1 = conjunct1 [OF c]
  note c2 = conjunct1 [OF conjunct2 [OF c]]
  show ?thesis
    by (rule conjI [OF h1 conjI [OF h2 conjI [OF h3 conjI [OF c1 conjI [OF c2 run]]]]])
qed

section \<open>Running out of iterations\<close>



end
